theory Spec2Isabelle
  imports Complex_Main "HOL-Library.Char_ord" "HOL-Library.List_Lexorder" "HOL-Library.Multiset"
begin

chapter \<open>The model\<close>

section \<open>Python values\<close>

text \<open>
  The values that \<^verbatim>\<open>response.json()\<close> can deliver, and the payloads the knowledge
  operations return: \<^verbatim>\<open>None\<close>, booleans, numbers, strings, lists and dictionaries with
  string keys. A dictionary is an association list in insertion order; a parsed dictionary
  has distinct keys. Of a number only its being zero matters below, so integers and floats
  share one constructor. A string is a list of characters, one \<^typ>\<open>char\<close> per character,
  which is a code point below 256.
\<close>

datatype json =
    JNull
  | JBool bool
  | JNum real
  | JStr string
  | JList "json list"
  | JObj "(string \<times> json) list"

text \<open>The exceptions that the dynamic operations of the reply extractor can raise.\<close>

datatype py_error = TypeError | KeyError | IndexError | AttributeError

definition bind_py :: "py_error + 'a \<Rightarrow> ('a \<Rightarrow> py_error + 'b) \<Rightarrow> py_error + 'b" where
  "bind_py m f = (case m of Inl e \<Rightarrow> Inl e | Inr v \<Rightarrow> f v)"

text \<open>\<^verbatim>\<open>a and b\<close> on conditions that may raise: \<^verbatim>\<open>b\<close> is evaluated only when \<^verbatim>\<open>a\<close> holds.\<close>

definition and_then :: "py_error + bool \<Rightarrow> py_error + bool \<Rightarrow> py_error + bool" where
  "and_then a b = (case a of Inl e \<Rightarrow> Inl e | Inr x \<Rightarrow> if x then b else Inr False)"

text \<open>Truth value of an object, as \<^verbatim>\<open>if x\<close> and \<^verbatim>\<open>not x\<close> test it.\<close>

fun truthy :: "json \<Rightarrow> bool" where
  "truthy JNull = False"
| "truthy (JBool b) = b"
| "truthy (JNum x) = (x \<noteq> 0)"
| "truthy (JStr s) = (s \<noteq> [])"
| "truthy (JList xs) = (xs \<noteq> [])"
| "truthy (JObj kvs) = (kvs \<noteq> [])"

text \<open>\<^verbatim>\<open>s.startswith(p)\<close> and the substring test \<^verbatim>\<open>p in s\<close> on strings.\<close>

fun startswith :: "string \<Rightarrow> string \<Rightarrow> bool" where
  "startswith s [] = True"
| "startswith [] (p # ps) = False"
| "startswith (c # cs) (p # ps) = (c = p \<and> startswith cs ps)"

fun substring_of :: "string \<Rightarrow> string \<Rightarrow> bool" where
  "substring_of p [] = (p = [])"
| "substring_of p (c # cs) = (startswith (c # cs) p \<or> substring_of p cs)"

definition chars_of :: "string \<Rightarrow> json list" where
  "chars_of s = map (\<lambda>c. JStr [c]) s"

definition keys_of :: "(string \<times> json) list \<Rightarrow> string list" where
  "keys_of kvs = remdups (map fst kvs)"

text \<open>
  \<^verbatim>\<open>k in x\<close> for a string \<^verbatim>\<open>k\<close>: key membership in a dictionary, element membership in a
  list, substring test in a string, TypeError on \<^verbatim>\<open>None\<close>, booleans and numbers.
\<close>

fun py_in :: "string \<Rightarrow> json \<Rightarrow> py_error + bool" where
  "py_in k (JObj kvs) = Inr (map_of kvs k \<noteq> None)"
| "py_in k (JList xs) = Inr (JStr k \<in> set xs)"
| "py_in k (JStr s) = Inr (substring_of k s)"
| "py_in k JNull = Inl TypeError"
| "py_in k (JBool b) = Inl TypeError"
| "py_in k (JNum x) = Inl TypeError"

text \<open>\<^verbatim>\<open>len(x)\<close>.\<close>

fun py_len :: "json \<Rightarrow> py_error + nat" where
  "py_len (JObj kvs) = Inr (length (keys_of kvs))"
| "py_len (JList xs) = Inr (length xs)"
| "py_len (JStr s) = Inr (length s)"
| "py_len JNull = Inl TypeError"
| "py_len (JBool b) = Inl TypeError"
| "py_len (JNum x) = Inl TypeError"

text \<open>
  \<^verbatim>\<open>x[0]\<close>: the first element of a list or string (IndexError when empty); on a dictionary
  a KeyError, since its keys are strings; TypeError otherwise.
\<close>

fun py_index0 :: "json \<Rightarrow> py_error + json" where
  "py_index0 (JList []) = Inl IndexError"
| "py_index0 (JList (x # xs)) = Inr x"
| "py_index0 (JStr []) = Inl IndexError"
| "py_index0 (JStr (c # cs)) = Inr (JStr [c])"
| "py_index0 (JObj kvs) = Inl KeyError"
| "py_index0 JNull = Inl TypeError"
| "py_index0 (JBool b) = Inl TypeError"
| "py_index0 (JNum x) = Inl TypeError"

text \<open>
  \<^verbatim>\<open>x["k"]\<close>: dictionary lookup (KeyError when missing); TypeError on everything else
  (list and string indices must be integers).
\<close>

fun py_getitem :: "json \<Rightarrow> string \<Rightarrow> py_error + json" where
  "py_getitem (JObj kvs) k = (case map_of kvs k of None \<Rightarrow> Inl KeyError | Some v \<Rightarrow> Inr v)"
| "py_getitem (JList xs) k = Inl TypeError"
| "py_getitem (JStr s) k = Inl TypeError"
| "py_getitem JNull k = Inl TypeError"
| "py_getitem (JBool b) k = Inl TypeError"
| "py_getitem (JNum x) k = Inl TypeError"

text \<open>\<^verbatim>\<open>x.get(k, d)\<close>: only dictionaries have the method.\<close>

fun py_get :: "json \<Rightarrow> string \<Rightarrow> json \<Rightarrow> py_error + json" where
  "py_get (JObj kvs) k d = Inr (case map_of kvs k of None \<Rightarrow> d | Some v \<Rightarrow> v)"
| "py_get (JList xs) k d = Inl AttributeError"
| "py_get (JStr s) k d = Inl AttributeError"
| "py_get JNull k d = Inl AttributeError"
| "py_get (JBool b) k d = Inl AttributeError"
| "py_get (JNum x) k d = Inl AttributeError"

text \<open>The elements that \<^verbatim>\<open>for y in x\<close> visits, and those of \<^verbatim>\<open>reversed(x)\<close>.\<close>

fun py_iter :: "json \<Rightarrow> py_error + json list" where
  "py_iter (JList xs) = Inr xs"
| "py_iter (JStr s) = Inr (chars_of s)"
| "py_iter (JObj kvs) = Inr (map JStr (keys_of kvs))"
| "py_iter JNull = Inl TypeError"
| "py_iter (JBool b) = Inl TypeError"
| "py_iter (JNum x) = Inl TypeError"

definition py_reversed :: "json \<Rightarrow> py_error + json list" where
  "py_reversed x = bind_py (py_iter x) (\<lambda>ys. Inr (rev ys))"

text \<open>
  \<^verbatim>\<open>a += b\<close>: concatenation of two strings, addition of numbers (a boolean counts as 0 or
  1), extension of a list by the elements of an iterable; TypeError otherwise.
\<close>

fun num_of :: "json \<Rightarrow> real option" where
  "num_of (JNum x) = Some x"
| "num_of (JBool b) = Some (if b then 1 else 0)"
| "num_of JNull = None"
| "num_of (JStr s) = None"
| "num_of (JList xs) = None"
| "num_of (JObj kvs) = None"

fun py_iadd :: "json \<Rightarrow> json \<Rightarrow> py_error + json" where
  "py_iadd (JStr a) b = (case b of JStr s \<Rightarrow> Inr (JStr (a @ s)) | _ \<Rightarrow> Inl TypeError)"
| "py_iadd (JList xs) b = bind_py (py_iter b) (\<lambda>ys. Inr (JList (xs @ ys)))"
| "py_iadd (JNum x) b = (case num_of b of Some y \<Rightarrow> Inr (JNum (x + y)) | None \<Rightarrow> Inl TypeError)"
| "py_iadd (JBool c) b =
     (case num_of b of Some y \<Rightarrow> Inr (JNum ((if c then 1 else 0) + y)) | None \<Rightarrow> Inl TypeError)"
| "py_iadd JNull b = Inl TypeError"
| "py_iadd (JObj kvs) b = Inl TypeError"

section \<open>The reply extractor (telegram\_bot.py, handle\_message)\<close>

text \<open>
  The test that guards each of the first three shapes, and the assignment it guards:
  \<^verbatim>\<open>if parts and len(parts) > 0 and "text" in parts[0]: model_response = parts[0]["text"]\<close>.
\<close>

definition text_of_parts :: "json \<Rightarrow> json \<Rightarrow> py_error + json" where
  "text_of_parts model_response parts =
     bind_py
       (and_then (Inr (truthy parts))
         (and_then (bind_py (py_len parts) (\<lambda>n. Inr (0 < n)))
           (bind_py (py_index0 parts) (py_in ''text''))))
       (\<lambda>ok. if ok then bind_py (py_index0 parts) (\<lambda>p. py_getitem p ''text'')
               else Inr model_response)"

text \<open>
  \<^verbatim>\<open>if "content" in item and "parts" in item["content"]: parts = item["content"]["parts"]\<close>
  followed by the test on the parts; \<^verbatim>\<open>item\<close> is the first candidate or the first list item.
\<close>

definition text_of_item :: "json \<Rightarrow> json \<Rightarrow> py_error + json" where
  "text_of_item model_response item =
     bind_py
       (and_then (py_in ''content'' item)
         (bind_py (py_getitem item ''content'') (py_in ''parts'')))
       (\<lambda>ok. if ok
          then bind_py (py_getitem item ''content'') (\<lambda>content.
               bind_py (py_getitem content ''parts'') (text_of_parts model_response))
          else Inr model_response)"

text \<open>Lines 310 to 315: the candidates shape.\<close>

definition schema_candidates :: "json \<Rightarrow> json \<Rightarrow> py_error + json" where
  "schema_candidates model_response api_response =
     bind_py
       (and_then (py_in ''candidates'' api_response)
         (bind_py (py_getitem api_response ''candidates'') (\<lambda>cs.
          bind_py (py_len cs) (\<lambda>n. Inr (0 < n)))))
       (\<lambda>ok. if ok
          then bind_py (py_getitem api_response ''candidates'') (\<lambda>cs.
               bind_py (py_index0 cs) (text_of_item model_response))
          else Inr model_response)"

text \<open>Lines 318 to 323: the response is itself a list.\<close>

definition schema_list :: "json \<Rightarrow> json \<Rightarrow> py_error + json" where
  "schema_list model_response api_response =
     (if \<not> truthy model_response
      then (case api_response of
              JList (first_item # rest) \<Rightarrow> text_of_item model_response first_item
            | _ \<Rightarrow> Inr model_response)
      else Inr model_response)"

text \<open>Lines 326 to 331: the response shape; only a dictionary is looked into.\<close>

definition schema_response :: "json \<Rightarrow> json \<Rightarrow> py_error + json" where
  "schema_response model_response api_response =
     bind_py (and_then (Inr (\<not> truthy model_response)) (py_in ''response'' api_response))
       (\<lambda>ok. if ok
          then bind_py (py_getitem api_response ''response'') (\<lambda>response_obj.
                 case response_obj of
                   JObj kvs \<Rightarrow>
                     (if map_of kvs ''parts'' \<noteq> None
                      then bind_py (py_getitem response_obj ''parts'') (text_of_parts model_response)
                      else Inr model_response)
                 | _ \<Rightarrow> Inr model_response)
          else Inr model_response)"

text \<open>
  Lines 340 to 342, the inner loop: every part that has a text is appended to the
  response collected so far.
\<close>

fun append_parts :: "json \<Rightarrow> json list \<Rightarrow> py_error + json" where
  "append_parts model_response [] = Inr model_response"
| "append_parts model_response (part # parts) =
     (case py_in ''text'' part of
        Inl e \<Rightarrow> Inl e
      | Inr has_text \<Rightarrow>
          if has_text
          then (case py_getitem part ''text'' of
                  Inl e \<Rightarrow> Inl e
                | Inr t \<Rightarrow>
                    (case py_iadd model_response t of
                       Inl e \<Rightarrow> Inl e
                     | Inr r \<Rightarrow> append_parts r parts))
          else append_parts model_response parts)"

text \<open>
  Lines 337 to 343, the outer loop over the reversed messages: the first message whose
  role is "model" contributes its parts, and the loop is left.
\<close>

fun scan_messages :: "json \<Rightarrow> json list \<Rightarrow> py_error + json" where
  "scan_messages model_response [] = Inr model_response"
| "scan_messages model_response (message # messages) =
     (case py_get message ''role'' JNull of
        Inl e \<Rightarrow> Inl e
      | Inr role \<Rightarrow>
          if role = JStr ''model''
          then (case py_get message ''parts'' (JList []) of
                  Inl e \<Rightarrow> Inl e
                | Inr parts \<Rightarrow>
                    (case py_iter parts of
                       Inl e \<Rightarrow> Inl e
                     | Inr ps \<Rightarrow> append_parts model_response ps))
          else scan_messages model_response messages)"

text \<open>Lines 334 to 343: the data.messages shape.\<close>

definition schema_messages :: "json \<Rightarrow> json \<Rightarrow> py_error + json" where
  "schema_messages model_response api_response =
     bind_py
       (and_then (Inr (\<not> truthy model_response))
         (and_then (py_in ''data'' api_response)
           (bind_py (py_getitem api_response ''data'') (py_in ''messages''))))
       (\<lambda>ok. if ok
          then bind_py (py_getitem api_response ''data'') (\<lambda>d.
               bind_py (py_getitem d ''messages'') (\<lambda>messages.
               bind_py (and_then (Inr (truthy messages))
                          (bind_py (py_len messages) (\<lambda>n. Inr (0 < n))))
                 (\<lambda>nonempty. if nonempty
                    then bind_py (py_reversed messages) (scan_messages model_response)
                    else Inr model_response)))
          else Inr model_response)"

text \<open>Lines 306 to 343: the four shapes in sequence, starting from the empty string.\<close>

definition extract_model_response :: "json \<Rightarrow> py_error + json" where
  "extract_model_response api_response =
     bind_py (schema_candidates (JStr []) api_response) (\<lambda>m1.
     bind_py (schema_list m1 api_response) (\<lambda>m2.
     bind_py (schema_response m2 api_response) (\<lambda>m3.
     schema_messages m3 api_response)))"

definition fallback_text :: string where
  "fallback_text = ''I received your message but couldn't generate a proper response.''"

text \<open>
  Lines 306 to 346: the extraction with the final default. \<open>Inl\<close> is an exception, which
  leaves the \<^verbatim>\<open>try\<close> block of the handler for its \<^verbatim>\<open>except Exception\<close> clause.
\<close>

definition reply_extractor :: "json \<Rightarrow> py_error + json" where
  "reply_extractor api_response =
     bind_py (extract_model_response api_response)
       (\<lambda>model_response. Inr (if \<not> truthy model_response then JStr fallback_text
                               else model_response))"

section \<open>Strings\<close>

text \<open>
  A character of a string is a code point below 256, that is ASCII and Latin-1; strings
  with other code points are outside the model. On these code points \<^verbatim>\<open>str.lower()\<close>
  sends the letters A to Z and the Latin-1 capitals U+00C0 to U+00DE, the multiplication
  sign U+00D7 excepted, to the code point 32 above, and leaves every other code point as
  it is. \<^verbatim>\<open>str.title()\<close> is only ever applied to a key of the tables below, a word of
  small ASCII letters, and is written out for ASCII letters.
\<close>

definition upper_letters :: string where
  "upper_letters = ''ABCDEFGHIJKLMNOPQRSTUVWXYZ''"

definition lower_letters :: string where
  "lower_letters = ''abcdefghijklmnopqrstuvwxyz''"

definition latin_upper :: string where
  "latin_upper =
     [CHR 0xC0, CHR 0xC1, CHR 0xC2, CHR 0xC3, CHR 0xC4, CHR 0xC5, CHR 0xC6, CHR 0xC7,
      CHR 0xC8, CHR 0xC9, CHR 0xCA, CHR 0xCB, CHR 0xCC, CHR 0xCD, CHR 0xCE, CHR 0xCF,
      CHR 0xD0, CHR 0xD1, CHR 0xD2, CHR 0xD3, CHR 0xD4, CHR 0xD5, CHR 0xD6,
      CHR 0xD8, CHR 0xD9, CHR 0xDA, CHR 0xDB, CHR 0xDC, CHR 0xDD, CHR 0xDE]"

definition latin_lower :: string where
  "latin_lower =
     [CHR 0xE0, CHR 0xE1, CHR 0xE2, CHR 0xE3, CHR 0xE4, CHR 0xE5, CHR 0xE6, CHR 0xE7,
      CHR 0xE8, CHR 0xE9, CHR 0xEA, CHR 0xEB, CHR 0xEC, CHR 0xED, CHR 0xEE, CHR 0xEF,
      CHR 0xF0, CHR 0xF1, CHR 0xF2, CHR 0xF3, CHR 0xF4, CHR 0xF5, CHR 0xF6,
      CHR 0xF8, CHR 0xF9, CHR 0xFA, CHR 0xFB, CHR 0xFC, CHR 0xFD, CHR 0xFE]"

definition lower_char :: "char \<Rightarrow> char" where
  "lower_char c =
     (case map_of (zip (upper_letters @ latin_upper) (lower_letters @ latin_lower)) c of
        Some d \<Rightarrow> d
      | None \<Rightarrow> c)"

definition upper_char :: "char \<Rightarrow> char" where
  "upper_char c = (case map_of (zip lower_letters upper_letters) c of Some d \<Rightarrow> d | None \<Rightarrow> c)"

definition lower :: "string \<Rightarrow> string" where
  "lower s = map lower_char s"

definition is_letter :: "char \<Rightarrow> bool" where
  "is_letter c = (c \<in> set upper_letters \<or> c \<in> set lower_letters)"

text \<open>The flag tells whether the previous character was a letter.\<close>

fun title_from :: "bool \<Rightarrow> string \<Rightarrow> string" where
  "title_from prev_cased [] = []"
| "title_from prev_cased (c # cs) =
     (if is_letter c
      then (if prev_cased then lower_char c else upper_char c) # title_from True cs
      else c # title_from False cs)"

definition title :: "string \<Rightarrow> string" where
  "title s = title_from False s"

text \<open>\<^verbatim>\<open>sep.join(xs)\<close>.\<close>

fun join :: "string \<Rightarrow> string list \<Rightarrow> string" where
  "join sep [] = []"
| "join sep [x] = x"
| "join sep (x # y # ys) = x @ sep @ join sep (y # ys)"

definition newline :: string where
  "newline = [CHR 0x0A]"

text \<open>The decimal numeral that an f-string prints for an integer.\<close>

definition digit_char :: "nat \<Rightarrow> char" where
  "digit_char d = ''0123456789'' ! d"

fun str_nat :: "nat \<Rightarrow> string" where
  "str_nat n = (if n < 10 then [digit_char n] else str_nat (n div 10) @ [digit_char (n mod 10)])"

declare str_nat.simps [simp del]

definition str_int :: "int \<Rightarrow> string" where
  "str_int i = (if i < 0 then ''-'' @ str_nat (nat (- i)) else str_nat (nat i))"

text \<open>An optional string argument that is given and not empty, as \<^verbatim>\<open>if arg:\<close> tests it.\<close>

fun given :: "string option \<Rightarrow> bool" where
  "given None = False"
| "given (Some s) = (s \<noteq> [])"

fun json_of_opt :: "string option \<Rightarrow> json" where
  "json_of_opt None = JNull"
| "json_of_opt (Some s) = JStr s"

section \<open>The knowledge tables (spiritual\_api.py)\<close>

definition RELIGIONS :: "(string \<times> nat) list" where
  "RELIGIONS =
     [(''christianity'', 1), (''islam'', 2), (''hinduism'', 3), (''buddhism'', 4),
      (''judaism'', 5), (''sikhism'', 6), (''taoism'', 7), (''jainism'', 8),
      (''shintoism'', 9), (''zoroastrianism'', 10), (''bahai'', 11), (''confucianism'', 12),
      (''atheism'', 13), (''agnosticism'', 14), (''humanism'', 15)]"

definition PHILOSOPHIES :: "(string \<times> nat) list" where
  "PHILOSOPHIES =
     [(''stoicism'', 1), (''existentialism'', 2), (''nihilism'', 3), (''pragmatism'', 4),
      (''utilitarianism'', 5), (''hedonism'', 6), (''rationalism'', 7), (''empiricism'', 8),
      (''idealism'', 9), (''materialism'', 10)]"

definition CATEGORIES :: "(string \<times> string) list" where
  "CATEGORIES =
     [(''general'', ''General religious and spiritual information''),
      (''rituals'', ''Religious rituals and practices''),
      (''philosophy'', ''Philosophy and ethics''),
      (''life'', ''Life guidance and spirituality''),
      (''comparative'', ''Comparative religion and interfaith''),
      (''nonreligious'', ''Non-religious and secular perspectives''),
      (''history'', ''Historical and cultural context'')]"

text \<open>\<^verbatim>\<open>k in D\<close> and \<^verbatim>\<open>D.keys()\<close> for one of the tables.\<close>

definition known :: "(string \<times> 'a) list \<Rightarrow> string \<Rightarrow> bool" where
  "known table k = (map_of table k \<noteq> None)"

definition keys :: "(string \<times> 'a) list \<Rightarrow> string list" where
  "keys table = map fst table"

section \<open>The response cache (SpiritualKnowledgeAPI)\<close>

text \<open>
  \<^verbatim>\<open>self.response_cache\<close> maps a key to a dictionary with the entries \<^verbatim>\<open>data\<close> and
  \<^verbatim>\<open>timestamp\<close>. The clock \<^verbatim>\<open>time.time()\<close> is a number of seconds, taken as a real number.
\<close>

record cache_entry =
  data :: json
  timestamp :: real

type_synonym response_cache = "string \<Rightarrow> cache_entry option"

definition cache_time :: real where
  "cache_time = 24 * 60 * 60"

text \<open>
  The read that every cached operation starts with:
  \<^verbatim>\<open>if cache_key in self.response_cache:\<close>
  \<^verbatim>\<open>    cache_entry = self.response_cache[cache_key]\<close>
  \<^verbatim>\<open>    if time.time() - cache_entry['timestamp'] < self.cache_time: return cache_entry['data']\<close>
\<close>

definition cache_get :: "response_cache \<Rightarrow> real \<Rightarrow> string \<Rightarrow> json option" where
  "cache_get cache now cache_key =
     (case cache cache_key of
        None \<Rightarrow> None
      | Some cache_entry \<Rightarrow>
          if now - timestamp cache_entry < cache_time then Some (data cache_entry) else None)"

text \<open>
  The write that every cached operation ends with:
  \<^verbatim>\<open>self.response_cache[cache_key] = {'data': result, 'timestamp': time.time()}\<close>
\<close>

definition cache_put :: "response_cache \<Rightarrow> real \<Rightarrow> string \<Rightarrow> json \<Rightarrow> response_cache" where
  "cache_put cache now cache_key result =
     cache(cache_key \<mapsto> \<lparr>data = result, timestamp = now\<rparr>)"

definition get_cache_key :: "string \<Rightarrow> string \<Rightarrow> string option \<Rightarrow> string" where
  "get_cache_key query_type identifier category =
     (if given category
      then query_type @ ''-'' @ identifier @ ''-'' @ the category
      else query_type @ ''-'' @ identifier)"

text \<open>
  The generation service \<^verbatim>\<open>self.model.generate_content(prompt)\<close>, followed by the reading
  of the text of its response: \<open>Inr\<close> is the content, \<open>Inl\<close> the text \<^verbatim>\<open>str(e)\<close> of the
  exception it raised.
\<close>

type_synonym generation = "string \<Rightarrow> string + string"

definition error_payload :: "string \<Rightarrow> json" where
  "error_payload message = JObj [(''status'', JStr ''error''), (''message'', JStr message)]"

definition sources :: "string \<Rightarrow> json" where
  "sources name =
     JList [JObj [(''name'', JStr name), (''reliability'', JStr ''high'')]]"

text \<open>The suffix of a cache key for a free text: its first 50 characters.\<close>

definition text_suffix :: "string option \<Rightarrow> string" where
  "text_suffix q = (if given q then ''-'' @ take 50 (the q) else [])"

section \<open>Knowledge operations of src/spiritual\_api.py\<close>

text \<open>
  Every operation takes the generation service, the readings of the clock (\<open>now\<close> at the
  cache read, \<open>now'\<close> at the cache write) and the cache, and returns its payload with the
  cache it leaves. The whole body is inside \<^verbatim>\<open>try\<close>, and \<^verbatim>\<open>except Exception\<close> turns every
  exception into an error payload. What is printed is left out.
\<close>

definition religion_prompt :: "string \<Rightarrow> string \<Rightarrow> string option \<Rightarrow> string" where
  "religion_prompt religion category specific_query =
     ''Provide accurate, respectful, and educational information about '' @ title religion @ '' ''
     @ (case map_of CATEGORIES category of
          Some description \<Rightarrow> ''focusing on '' @ description @ ''. ''
        | None \<Rightarrow> ''covering its core beliefs, practices, and principles. '')
     @ (if given specific_query
        then ''Specifically address this question: '' @ the specific_query else [])
     @ newline @ newline
     @ ''Please structure your response with these sections when applicable:'' @ newline
     @ ''1. Core Beliefs'' @ newline @ ''2. Key Practices'' @ newline @ ''3. Sacred Texts''
     @ newline @ ''4. Historical Context'' @ newline @ ''5. Modern Interpretation''"

definition religion_cache_key :: "string \<Rightarrow> string \<Rightarrow> string option \<Rightarrow> string" where
  "religion_cache_key religion category specific_query =
     get_cache_key ''religion'' religion (Some category) @ text_suffix specific_query"

definition religion_result :: "string \<Rightarrow> string \<Rightarrow> string option \<Rightarrow> string \<Rightarrow> json" where
  "religion_result religion category specific_query content =
     JObj [(''religion'', JStr religion),
           (''category'', JStr category),
           (''query'', json_of_opt specific_query),
           (''content'', JStr content),
           (''sources'', sources ''Generated by AI based on scholarly sources'')]"

text \<open>
  \<^verbatim>\<open>get_religious_information\<close>; the method is the same, line by line, in
  src/masterversacharya/spiritual\_api.py.
\<close>

definition get_religious_information ::
  "generation \<Rightarrow> real \<Rightarrow> real \<Rightarrow> response_cache \<Rightarrow> string \<Rightarrow> string \<Rightarrow> string option
     \<Rightarrow> json \<times> response_cache" where
  "get_religious_information generate now now' cache religion_arg category specific_query =
     (if religion_arg = []
      then (error_payload (''Error retrieving information: '' @ ''Religion identifier is required''),
            cache)
      else
        let religion = lower religion_arg in
        if \<not> known RELIGIONS religion
        then (error_payload (''Unknown religion: '' @ religion @ ''. Available options are: ''
                @ join '', '' (keys RELIGIONS)), cache)
        else
          let cache_key = religion_cache_key religion category specific_query in
          case cache_get cache now cache_key of
            Some cached \<Rightarrow> (cached, cache)
          | None \<Rightarrow>
              (case generate (religion_prompt religion category specific_query) of
                 Inl err \<Rightarrow> (error_payload (''Error retrieving information: '' @ err), cache)
               | Inr content \<Rightarrow>
                   let result = religion_result religion category specific_query content
                   in (result, cache_put cache now' cache_key result)))"

definition philosophy_prompt :: "string \<Rightarrow> string option \<Rightarrow> string" where
  "philosophy_prompt philosophy topic =
     ''Provide an educational explanation of '' @ philosophy @ '' philosophy ''
     @ (if given topic then ''specifically addressing: '' @ the topic @ ''. ''
        else ''covering its key principles, notable thinkers, and practical applications. '')
     @ newline @ newline
     @ ''Please structure your response with these sections:'' @ newline
     @ ''1. Core Principles'' @ newline @ ''2. Key Thinkers'' @ newline
     @ ''3. Historical Context'' @ newline @ ''4. Modern Relevance'' @ newline
     @ ''5. Practical Applications''"

definition philosophy_cache_key :: "string \<Rightarrow> string option \<Rightarrow> string" where
  "philosophy_cache_key philosophy topic =
     get_cache_key ''philosophy'' philosophy None @ text_suffix topic"

definition philosophy_result :: "string \<Rightarrow> string option \<Rightarrow> string \<Rightarrow> json" where
  "philosophy_result philosophy topic content =
     JObj [(''philosophy'', JStr philosophy),
           (''topic'', json_of_opt topic),
           (''content'', JStr content),
           (''sources'', sources ''Generated by AI based on philosophical sources'')]"

definition get_philosophical_perspective ::
  "generation \<Rightarrow> real \<Rightarrow> real \<Rightarrow> response_cache \<Rightarrow> string \<Rightarrow> string option
     \<Rightarrow> json \<times> response_cache" where
  "get_philosophical_perspective generate now now' cache philosophy_arg topic =
     (if philosophy_arg = []
      then (error_payload (''Error retrieving information: '' @ ''Philosophy identifier is required''),
            cache)
      else
        let philosophy = lower philosophy_arg in
        if \<not> known PHILOSOPHIES philosophy
        then (error_payload (''Unknown philosophy: '' @ philosophy @ ''. Available options are: ''
                @ join '', '' (keys PHILOSOPHIES)), cache)
        else
          let cache_key = philosophy_cache_key philosophy topic in
          case cache_get cache now cache_key of
            Some cached \<Rightarrow> (cached, cache)
          | None \<Rightarrow>
              (case generate (philosophy_prompt philosophy topic) of
                 Inl err \<Rightarrow> (error_payload (''Error retrieving information: '' @ err), cache)
               | Inr content \<Rightarrow>
                   let result = philosophy_result philosophy topic content
                   in (result, cache_put cache now' cache_key result)))"

text \<open>
  Line 277 of \<^verbatim>\<open>compare_religions\<close> (the same line in both files): the two lowered
  identifiers, in the order of the arguments.
\<close>

definition comparison_cache_key :: "string \<Rightarrow> string \<Rightarrow> string \<Rightarrow> string" where
  "comparison_cache_key religion1 religion2 aspect =
     get_cache_key ''comparison'' (religion1 @ ''-'' @ religion2) (Some aspect)"

definition comparison_prompt :: "string \<Rightarrow> string \<Rightarrow> string \<Rightarrow> string" where
  "comparison_prompt religion1 religion2 aspect =
     ''Provide a respectful, educational, and balanced comparison between '' @ title religion1
     @ '' and '' @ title religion2 @ '' ''
     @ (if aspect \<noteq> [] \<and> aspect \<noteq> ''general''
        then ''focusing specifically on their '' @ aspect @ ''. ''
        else ''covering their core beliefs, practices, and historical contexts. '')
     @ newline @ newline
     @ ''Please structure your response with these sections:'' @ newline
     @ ''1. '' @ title religion1 @ '' Overview'' @ newline
     @ ''2. '' @ title religion2 @ '' Overview'' @ newline
     @ ''3. Key Similarities'' @ newline @ ''4. Notable Differences'' @ newline
     @ ''5. Historical Interactions'' @ newline @ ''6. Modern Coexistence''"

definition compare_religions ::
  "generation \<Rightarrow> real \<Rightarrow> real \<Rightarrow> response_cache \<Rightarrow> string \<Rightarrow> string \<Rightarrow> string
     \<Rightarrow> json \<times> response_cache" where
  "compare_religions generate now now' cache religion1_arg religion2_arg aspect =
     (if religion1_arg = [] \<or> religion2_arg = []
      then (error_payload (''Error performing comparison: ''
              @ ''Both religions are required for comparison''), cache)
      else
        let religion1 = lower religion1_arg; religion2 = lower religion2_arg in
        if \<not> known RELIGIONS religion1
        then (error_payload (''Unknown religion: '' @ religion1), cache)
        else if \<not> known RELIGIONS religion2
        then (error_payload (''Unknown religion: '' @ religion2), cache)
        else
          let cache_key = comparison_cache_key religion1 religion2 aspect in
          case cache_get cache now cache_key of
            Some cached \<Rightarrow> (cached, cache)
          | None \<Rightarrow>
              (case generate (comparison_prompt religion1 religion2 aspect) of
                 Inl err \<Rightarrow> (error_payload (''Error performing comparison: '' @ err), cache)
               | Inr content \<Rightarrow>
                   let result = JObj
                         [(''religions'',
                             JObj [(''first'', JStr religion1), (''second'', JStr religion2)]),
                          (''aspect'', JStr aspect),
                          (''comparison'', JStr content),
                          (''sources'',
                             sources ''Generated by AI based on comparative religious studies'')]
                   in (result, cache_put cache now' cache_key result)))"

definition meditation_prompt :: "string option \<Rightarrow> int \<Rightarrow> string \<Rightarrow> string" where
  "meditation_prompt tradition duration focus =
     ''Create a '' @ str_int duration @ ''-minute guided meditation script ''
     @ (if given tradition
        then (if known RELIGIONS (the tradition)
              then ''based on '' @ title (the tradition) @ '' practices ''
              else if known PHILOSOPHIES (the tradition)
              then ''inspired by '' @ title (the tradition) @ '' philosophy ''
              else [])
        else [])
     @ ''focusing on '' @ focus @ ''. ''
     @ newline @ newline
     @ ''Please structure the meditation guide with:'' @ newline
     @ ''1. A brief introduction explaining the benefits and context'' @ newline
     @ ''2. Preparation instructions'' @ newline
     @ ''3. Step-by-step meditation guidance with appropriate timing'' @ newline
     @ ''4. A gentle conclusion'' @ newline
     @ ''5. Suggestions for integrating the practice into daily life''"

definition meditation_result :: "string option \<Rightarrow> int \<Rightarrow> string \<Rightarrow> string \<Rightarrow> json" where
  "meditation_result tradition duration focus content =
     JObj [(''tradition'', json_of_opt tradition),
           (''duration'', JNum (real_of_int duration)),
           (''focus'', JStr focus),
           (''guide'', JStr content)]"

text \<open>\<^verbatim>\<open>get_meditation_guide\<close> of src/spiritual\_api.py, lines 423 to 498.\<close>

definition get_meditation_guide ::
  "generation \<Rightarrow> real \<Rightarrow> real \<Rightarrow> response_cache \<Rightarrow> string option \<Rightarrow> int \<Rightarrow> string
     \<Rightarrow> json \<times> response_cache" where
  "get_meditation_guide generate now now' cache tradition duration focus =
     (let cache_key = ''meditation-'' @ str_int duration @ ''-'' @ focus
                        @ (if given tradition then ''-'' @ the tradition else []) in
      case cache_get cache now cache_key of
        Some cached \<Rightarrow> (cached, cache)
      | None \<Rightarrow>
          (case generate (meditation_prompt tradition duration focus) of
             Inl err \<Rightarrow> (error_payload (''Error generating meditation guide: '' @ err), cache)
           | Inr content \<Rightarrow>
               let result = meditation_result tradition duration focus content
               in (result, cache_put cache now' cache_key result)))"

section \<open>Tools of src/agent.py\<close>

text \<open>
  \<^verbatim>\<open>spiritual_client\<close> is the \<^verbatim>\<open>SpiritualKnowledgeAPI\<close> of the module \<^verbatim>\<open>spiritual_api\<close> that
  lies beside agent.py, which is src/spiritual\_api.py. The method returns a payload on
  every path, so the \<^verbatim>\<open>except\<close> clause of the tool is never entered.
\<close>

definition agent_get_meditation_guide ::
  "generation \<Rightarrow> real \<Rightarrow> real \<Rightarrow> response_cache \<Rightarrow> string option \<Rightarrow> int \<Rightarrow> string
     \<Rightarrow> json \<times> response_cache" where
  "agent_get_meditation_guide generate now now' cache tradition duration focus =
     get_meditation_guide generate now now' cache tradition duration focus"

definition default_religions :: "string list" where
  "default_religions = [''christianity'', ''islam'', ''hinduism'', ''buddhism'', ''judaism'']"

text \<open>
  Lines 207 to 214 of agent.py, and 492 to 500 of the package: fewer than two given
  religions are replaced by the default set, and the known ones are kept, lowered.
\<close>

definition valid_religions_of :: "string list option \<Rightarrow> string list" where
  "valid_religions_of religions_arg =
     (let religions =
            (case religions_arg of
               None \<Rightarrow> default_religions
             | Some rs \<Rightarrow> if rs = [] \<or> length rs < 2 then default_religions else rs)
      in filter (known RELIGIONS) (map lower religions))"

definition agent_dialogue_prompt :: "string \<Rightarrow> string list \<Rightarrow> string" where
  "agent_dialogue_prompt topic valid_religions =
     ''Create an educational interfaith dialogue on the topic of ''
     @ [CHR 0x27] @ topic @ [CHR 0x27] @ '' between representatives of ''
     @ join '', '' (map title (butlast valid_religions))
     @ '', and '' @ title (last valid_religions) @ ''. ''
     @ newline @ newline
     @ ''Please structure the dialogue to:'' @ newline
     @ ''1. Respectfully represent each tradition's perspective'' @ newline
     @ ''2. Highlight areas of agreement and disagreement'' @ newline
     @ ''3. Demonstrate mutual respect and understanding'' @ newline
     @ ''4. Conclude with insights gained from the dialogue''"

text \<open>\<^verbatim>\<open>get_interfaith_dialogue\<close> of agent.py, lines 193 to 257; it has no cache.\<close>

definition agent_get_interfaith_dialogue ::
  "generation \<Rightarrow> string \<Rightarrow> string list option \<Rightarrow> json" where
  "agent_get_interfaith_dialogue generate topic religions =
     (let valid_religions = valid_religions_of religions in
      if length valid_religions < 2
      then error_payload ''At least two valid religions are required for interfaith dialogue''
      else
        case generate (agent_dialogue_prompt topic valid_religions) of
          Inl err \<Rightarrow> error_payload (''Error generating interfaith dialogue: '' @ err)
        | Inr content \<Rightarrow>
            JObj [(''status'', JStr ''success''),
                  (''topic'', JStr topic),
                  (''religions'', JList (map JStr valid_religions)),
                  (''dialogue'', JStr content)])"

section \<open>Knowledge operations of src/masterversacharya/spiritual\_api.py\<close>

definition pkg_philosophy_prompt :: "string \<Rightarrow> string option \<Rightarrow> string" where
  "pkg_philosophy_prompt philosophy topic =
     ''Provide an educational explanation of '' @ philosophy @ '' philosophy ''
     @ (if given topic then ''specifically addressing: '' @ the topic @ ''. ''
        else ''covering its key principles, major thinkers, and philosophical implications. '')
     @ newline @ newline
     @ ''Please structure your response with these sections when applicable:'' @ newline
     @ ''1. Core Principles'' @ newline @ ''2. Major Thinkers'' @ newline
     @ ''3. Historical Context'' @ newline @ ''4. Modern Relevance'' @ newline
     @ ''5. Criticism''"

definition pkg_philosophy_result :: "string \<Rightarrow> string option \<Rightarrow> string \<Rightarrow> json" where
  "pkg_philosophy_result philosophy topic content =
     JObj [(''philosophy'', JStr philosophy),
           (''topic'', json_of_opt topic),
           (''content'', JStr content),
           (''sources'', sources ''Generated by AI based on philosophical resources'')]"

definition pkg_get_philosophical_perspective ::
  "generation \<Rightarrow> real \<Rightarrow> real \<Rightarrow> response_cache \<Rightarrow> string \<Rightarrow> string option
     \<Rightarrow> json \<times> response_cache" where
  "pkg_get_philosophical_perspective generate now now' cache philosophy_arg topic =
     (if philosophy_arg = []
      then (error_payload (''Error retrieving philosophical perspective: ''
              @ ''Philosophy identifier is required''), cache)
      else
        let philosophy = lower philosophy_arg in
        if \<not> known PHILOSOPHIES philosophy
        then (error_payload (''Unknown philosophy: '' @ philosophy @ ''. Available options are: ''
                @ join '', '' (keys PHILOSOPHIES)), cache)
        else
          let cache_key = philosophy_cache_key philosophy topic in
          case cache_get cache now cache_key of
            Some cached \<Rightarrow> (cached, cache)
          | None \<Rightarrow>
              (case generate (pkg_philosophy_prompt philosophy topic) of
                 Inl err \<Rightarrow>
                   (error_payload (''Error retrieving philosophical perspective: '' @ err), cache)
               | Inr content \<Rightarrow>
                   let result = pkg_philosophy_result philosophy topic content
                   in (result, cache_put cache now' cache_key result)))"

definition pkg_meditation_prompt :: "string option \<Rightarrow> int \<Rightarrow> string \<Rightarrow> string" where
  "pkg_meditation_prompt tradition duration focus =
     ''Create a '' @ str_int duration @ ''-minute guided meditation script focused on '' @ focus
     @ (if given tradition
        then (if known RELIGIONS (lower (the tradition)) \<or> known PHILOSOPHIES (lower (the tradition))
              then '' drawing from the '' @ the tradition @ '' tradition''
              else '' inspired by '' @ the tradition @ '' principles'')
        else [])
     @ ''.'' @ newline @ newline @ ''The meditation should include:'' @ newline
     @ ''1. A brief introduction explaining the benefits'' @ newline
     @ ''2. Opening instructions for posture and breathing'' @ newline
     @ ''3. The main guided meditation with appropriate timing suggestions'' @ newline
     @ ''4. A gentle closing'' @ newline @ newline
     @ ''The entire guided meditation should take approximately '' @ str_int duration
     @ '' minutes to complete when read at a moderate pace.''"

text \<open>\<^verbatim>\<open>get_meditation_guide\<close> of the package, lines 392 to 473.\<close>

definition pkg_get_meditation_guide ::
  "generation \<Rightarrow> real \<Rightarrow> real \<Rightarrow> response_cache \<Rightarrow> string option \<Rightarrow> int \<Rightarrow> string
     \<Rightarrow> json \<times> response_cache" where
  "pkg_get_meditation_guide generate now now' cache tradition duration focus =
     (if duration < 1 \<or> duration > 60
      then (error_payload ''Duration must be between 1 and 60 minutes'', cache)
      else
        let cache_key = get_cache_key ''meditation'' (focus @ ''-'' @ str_int duration)
                          (if given tradition then tradition else Some ''general'') in
        case cache_get cache now cache_key of
          Some cached \<Rightarrow> (cached, cache)
        | None \<Rightarrow>
            (case generate (pkg_meditation_prompt tradition duration focus) of
               Inl err \<Rightarrow> (error_payload (''Error generating meditation guide: '' @ err), cache)
             | Inr content \<Rightarrow>
                 let result = meditation_result tradition duration focus content
                 in (result, cache_put cache now' cache_key result)))"

text \<open>Lines 509 and 510: the valid religions are sorted before they are joined.\<close>

definition interfaith_cache_key :: "string \<Rightarrow> string list \<Rightarrow> string" where
  "interfaith_cache_key topic valid_religions =
     get_cache_key ''interfaith'' (join ''-'' (sort valid_religions)) (Some (take 50 topic))"

definition pkg_dialogue_prompt :: "string \<Rightarrow> string list \<Rightarrow> string" where
  "pkg_dialogue_prompt topic valid_religions =
     ''Create an educational interfaith dialogue between representatives of ''
     @ join '', '' (map title (butlast valid_religions))
     @ '' and '' @ title (last valid_religions)
     @ '' discussing the topic of '' @ [CHR 0x22] @ topic @ [CHR 0x22] @ ''.''
     @ newline @ newline
     @ ''Structure the dialogue as a respectful conversation where each perspective:'' @ newline
     @ ''1. Explains their tradition's viewpoint on the topic'' @ newline
     @ ''2. Highlights similarities with other traditions'' @ newline
     @ ''3. Addresses areas of difference with respect'' @ newline
     @ ''4. Seeks common ground where possible'' @ newline @ newline
     @ ''The dialogue should be informative, nuanced, and reflect genuine theological ''
     @ ''positions without oversimplification.''"

text \<open>\<^verbatim>\<open>get_interfaith_dialogue\<close> of the package, lines 475 to 557.\<close>

definition pkg_get_interfaith_dialogue ::
  "generation \<Rightarrow> real \<Rightarrow> real \<Rightarrow> response_cache \<Rightarrow> string \<Rightarrow> string list option
     \<Rightarrow> json \<times> response_cache" where
  "pkg_get_interfaith_dialogue generate now now' cache topic religions =
     (if topic = []
      then (error_payload (''Error generating interfaith dialogue: ''
              @ ''Topic is required for interfaith dialogue''), cache)
      else
        let valid_religions = valid_religions_of religions in
        if length valid_religions < 2
        then (error_payload (''At least 2 valid religions are required. Available options are: ''
                @ join '', '' (keys RELIGIONS)), cache)
        else
          let cache_key = interfaith_cache_key topic valid_religions in
          case cache_get cache now cache_key of
            Some cached \<Rightarrow> (cached, cache)
          | None \<Rightarrow>
              (case generate (pkg_dialogue_prompt topic valid_religions) of
                 Inl err \<Rightarrow>
                   (error_payload (''Error generating interfaith dialogue: '' @ err), cache)
               | Inr content \<Rightarrow>
                   let result = JObj
                         [(''topic'', JStr topic),
                          (''religions'', JList (map JStr valid_religions)),
                          (''dialogue'', JStr content)]
                   in (result, cache_put cache now' cache_key result)))"

text \<open>A payload of the shape \<^verbatim>\<open>{"status": "error", "message": m}\<close>.\<close>

fun is_error_payload :: "json \<Rightarrow> bool" where
  "is_error_payload (JObj kvs) = (map_of kvs ''status'' = Some (JStr ''error''))"
| "is_error_payload JNull = False"
| "is_error_payload (JBool b) = False"
| "is_error_payload (JNum x) = False"
| "is_error_payload (JStr s) = False"
| "is_error_payload (JList xs) = False"

text \<open>The cache of a fresh client (\<^verbatim>\<open>self.response_cache = {}\<close>).\<close>

definition empty_cache :: response_cache where
  "empty_cache cache_key = None"

text \<open>A generation service for the examples: it answers every prompt with the same text.\<close>

definition sample_service :: generation where
  "sample_service prompt = Inr ''Be kind.''"

text \<open>A generation service whose call raises, with the text of its exception.\<close>

definition failing_service :: generation where
  "failing_service prompt = Inl ''quota exceeded''"

section \<open>Session handlers (telegram\_bot.py)\<close>

text \<open>
  \<^verbatim>\<open>user_sessions\<close> maps the stringified id of a chat user to the session bound to it. A
  handler returns the store it leaves, the calls it made to the Agent Run Service, in
  order, and the messages it sent to the user. The texts of the messages are reduced to
  their kind and their variable part.
\<close>

record session_binding =
  session_id :: json
  telegram_username :: string

type_synonym user_sessions = "string \<Rightarrow> session_binding option"

datatype remote_call = DELETE_session string json

text \<open>What a call of \<^verbatim>\<open>requests\<close> gives: an exception, or a response with status and text.\<close>

datatype http_result = Raised | Response nat string

datatype reply =
    NoActiveSession
  | AskConfirmation json
  | SessionSelected json
  | SessionDeleted
  | DeleteFailed string
  | DeleteWentWrong
  | NoSessionToDelete
  | DeletionCancelled

text \<open>\<^verbatim>\<open>update.effective_user.username or f"user{user_id}"\<close>.\<close>

definition username_or_default :: "string option \<Rightarrow> string \<Rightarrow> string" where
  "username_or_default username user_id =
     (if given username then the username else ''user'' @ user_id)"

text \<open>\<^verbatim>\<open>s.split(sep)\<close> for a separator of one character.\<close>

fun split :: "char \<Rightarrow> string \<Rightarrow> string list" where
  "split sep [] = [[]]"
| "split sep (c # cs) =
     (if c = sep then [] # split sep cs
      else (case split sep cs of [] \<Rightarrow> [[c]] | w # ws \<Rightarrow> (c # w) # ws))"

text \<open>
  \<^verbatim>\<open>delete_session\<close>, lines 205 to 230: the command asks for confirmation with two
  buttons, whose callback data are \<^verbatim>\<open>confirm_delete\<close> and \<^verbatim>\<open>cancel_delete\<close>.
\<close>

definition delete_session ::
  "user_sessions \<Rightarrow> string \<Rightarrow> user_sessions \<times> remote_call list \<times> reply list" where
  "delete_session sessions user_id =
     (case sessions user_id of
        None \<Rightarrow> (sessions, [], [NoActiveSession])
      | Some binding \<Rightarrow> (sessions, [], [AskConfirmation (session_id binding)]))"

text \<open>
  \<^verbatim>\<open>button_callback\<close>, lines 150 to 202. The first argument is the transport of the
  DELETE request, given the user name and the session id of its URL. In the first branch
  the data start with \<^verbatim>\<open>select_session:\<close>, so the split has a second component.
\<close>

definition button_callback ::
  "(string \<Rightarrow> json \<Rightarrow> http_result) \<Rightarrow> user_sessions \<Rightarrow> string \<Rightarrow> string option \<Rightarrow> string
     \<Rightarrow> user_sessions \<times> remote_call list \<times> reply list" where
  "button_callback http_delete sessions user_id username callback_data =
     (let telegram_username = username_or_default username user_id in
      if startswith callback_data ''select_session:''
      then (case split CHR '':'' callback_data of
              w0 # w1 # ws \<Rightarrow>
                (sessions(user_id \<mapsto>
                   \<lparr>session_id = JStr w1, telegram_username = telegram_username\<rparr>),
                 [], [SessionSelected (JStr w1)])
            | _ \<Rightarrow> (sessions, [], []))
      else if callback_data = ''confirm_delete''
      then (case sessions user_id of
              Some binding \<Rightarrow>
                (case http_delete telegram_username (session_id binding) of
                   Response status_code text \<Rightarrow>
                     if status_code = 200
                     then (sessions(user_id := None),
                           [DELETE_session telegram_username (session_id binding)],
                           [SessionDeleted])
                     else (sessions,
                           [DELETE_session telegram_username (session_id binding)],
                           [DeleteFailed text])
                 | Raised \<Rightarrow>
                     (sessions,
                      [DELETE_session telegram_username (session_id binding)],
                      [DeleteWentWrong]))
            | None \<Rightarrow> (sessions, [], [NoSessionToDelete]))
      else if callback_data = ''cancel_delete''
      then (sessions, [], [DeletionCancelled])
      else (sessions, [], []))"

text \<open>For the examples: a store with one bound user, and a transport whose DELETE fails.\<close>

definition sample_sessions :: user_sessions where
  "sample_sessions user_id =
     (if user_id = ''42''
      then Some \<lparr>session_id = JStr ''s1'', telegram_username = ''ann''\<rparr> else None)"

definition failing_delete :: "string \<Rightarrow> json \<Rightarrow> http_result" where
  "failing_delete user session = Response 500 ''Internal Server Error''"

section \<open>The accepted response shapes, in the words of the specification\<close>

text \<open>
  A path such as \<^verbatim>\<open>candidates[0].content.parts[0].text\<close> is a list of steps: the field
  of a dictionary, or the first item of a list. A step that does not fit ends the walk.
\<close>

datatype step = Field string | Item0

fun walk :: "step list \<Rightarrow> json \<Rightarrow> json option" where
  "walk [] x = Some x"
| "walk (Field k # path) x =
     (case x of
        JObj kvs \<Rightarrow> (case map_of kvs k of None \<Rightarrow> None | Some v \<Rightarrow> walk path v)
      | _ \<Rightarrow> None)"
| "walk (Item0 # path) x =
     (case x of JList (y # ys) \<Rightarrow> walk path y | _ \<Rightarrow> None)"

definition shape_candidates :: "json \<Rightarrow> json option" where
  "shape_candidates r =
     walk [Field ''candidates'', Item0, Field ''content'', Field ''parts'', Item0, Field ''text''] r"

definition shape_list :: "json \<Rightarrow> json option" where
  "shape_list r = walk [Item0, Field ''content'', Field ''parts'', Item0, Field ''text''] r"

definition shape_response :: "json \<Rightarrow> json option" where
  "shape_response r = walk [Field ''response'', Field ''parts'', Item0, Field ''text''] r"

text \<open>The text of a part, and the concatenation of the texts of the parts of a message.\<close>

definition part_text :: "json \<Rightarrow> string" where
  "part_text part = (case walk [Field ''text''] part of Some (JStr t) \<Rightarrow> t | _ \<Rightarrow> [])"

definition message_text :: "json \<Rightarrow> string" where
  "message_text message =
     (case walk [Field ''parts''] message of
        Some (JList parts) \<Rightarrow> concat (map part_text parts)
      | _ \<Rightarrow> [])"

definition is_model_message :: "json \<Rightarrow> bool" where
  "is_model_message message = (walk [Field ''role''] message = Some (JStr ''model''))"

text \<open>
  \<^verbatim>\<open>data.messages\<close> scanned from the end: the first message whose role is "model"
  contributes the concatenation of the texts of its parts.
\<close>

definition shape_messages :: "json \<Rightarrow> string option" where
  "shape_messages r =
     (case walk [Field ''data'', Field ''messages''] r of
        Some (JList messages) \<Rightarrow> map_option message_text (find is_model_message (rev messages))
      | _ \<Rightarrow> None)"

text \<open>
  Messages as the Agent Run Service words them: every message is a dictionary, its parts,
  if any, are a list of dictionaries, and the text of a part, if any, is a string.
\<close>

fun is_dict :: "json \<Rightarrow> bool" where
  "is_dict (JObj kvs) = True"
| "is_dict JNull = False"
| "is_dict (JBool b) = False"
| "is_dict (JNum x) = False"
| "is_dict (JStr s) = False"
| "is_dict (JList xs) = False"

definition well_formed_part :: "json \<Rightarrow> bool" where
  "well_formed_part part =
     (is_dict part \<and> (case walk [Field ''text''] part of None \<Rightarrow> True | Some t \<Rightarrow> t = JStr (part_text part)))"

definition well_formed_message :: "json \<Rightarrow> bool" where
  "well_formed_message message =
     (is_dict message \<and>
      (case walk [Field ''parts''] message of
         None \<Rightarrow> True
       | Some (JList parts) \<Rightarrow> list_all well_formed_part parts
       | Some _ \<Rightarrow> False))"

chapter \<open>Verification\<close>

section \<open>Strings and tables\<close>

lemmas lower_eval =
  lower_def lower_char_def upper_letters_def lower_letters_def latin_upper_def latin_lower_def

lemma lower_letters_fixed:
  "\<forall>d \<in> set (lower_letters @ latin_lower).
     map_of (zip (upper_letters @ latin_upper) (lower_letters @ latin_lower)) d = None"
  by (simp add: lower_letters_def upper_letters_def latin_upper_def latin_lower_def)

lemma lower_char_range:
  "map_of (zip (upper_letters @ latin_upper) (lower_letters @ latin_lower)) c = Some d
     \<Longrightarrow> d \<in> set (lower_letters @ latin_lower)"
  by (rule set_zip_rightD [OF map_of_SomeD])

lemma lower_char_idem: "lower_char (lower_char c) = lower_char c"
proof (cases "map_of (zip (upper_letters @ latin_upper) (lower_letters @ latin_lower)) c")
  case None
  then show ?thesis by (simp add: lower_char_def)
next
  case (Some d)
  then have "d \<in> set (lower_letters @ latin_lower)"
    by (rule lower_char_range)
  then have "map_of (zip (upper_letters @ latin_upper) (lower_letters @ latin_lower)) d = None"
    using lower_letters_fixed by blast
  with Some show ?thesis by (simp add: lower_char_def)
qed

lemma lower_idem: "lower (lower s) = lower s"
  by (simp add: lower_def lower_char_idem)

lemma lower_empty: "(lower s = []) = (s = [])"
  by (simp add: lower_def)

lemma known_islam: "known RELIGIONS (lower ''Islam'')"
  by (simp add: known_def RELIGIONS_def lower_eval)

lemma known_religion_cases: "known RELIGIONS a \<Longrightarrow> a \<in> set (keys RELIGIONS)"
  unfolding known_def keys_def by (metis map_of_eq_None_iff set_map)

lemma known_religion_no_hyphen: "known RELIGIONS a \<Longrightarrow> CHR ''-'' \<notin> set a"
proof -
  assume "known RELIGIONS a"
  then have "a \<in> set (keys RELIGIONS)" by (rule known_religion_cases)
  moreover have "\<forall>r \<in> set (keys RELIGIONS). CHR ''-'' \<notin> set r"
    by (simp add: keys_def RELIGIONS_def)
  ultimately show ?thesis by blast
qed

lemma takeWhile_hyphen:
  "CHR ''-'' \<notin> set a \<Longrightarrow> takeWhile (\<lambda>c. c \<noteq> CHR ''-'') (a @ CHR ''-'' # x) = a"
  by (induction a) auto

lemma hyphen_split:
  assumes "CHR ''-'' \<notin> set a" "CHR ''-'' \<notin> set b" "a @ CHR ''-'' # x = b @ CHR ''-'' # y"
  shows "a = b"
  using assms by (metis takeWhile_hyphen)

section \<open>The cache\<close>

lemma cache_get_put:
  "cache_get (cache_put cache t k v) t' k = (if t' - t < cache_time then Some v else None)"
  by (simp add: cache_get_def cache_put_def)

lemma cache_get_empty: "cache_get empty_cache now k = None"
  by (simp add: cache_get_def empty_cache_def)

lemma religious_information_miss:
  assumes "r \<noteq> []" and "known RELIGIONS (lower r)"
    and "cache_get cache t0 (religion_cache_key (lower r) cat q) = None"
    and "g (religion_prompt (lower r) cat q) = Inr content"
  shows "get_religious_information g t0 t cache r cat q =
           (religion_result (lower r) cat q content,
            cache_put cache t (religion_cache_key (lower r) cat q)
              (religion_result (lower r) cat q content))"
  using assms by (simp add: get_religious_information_def Let_def)

lemma religious_information_hit:
  assumes "r \<noteq> []" and "known RELIGIONS (lower r)"
    and "cache_get cache t0 (religion_cache_key (lower r) cat q) = Some v"
  shows "get_religious_information g t0 t cache r cat q = (v, cache)"
  using assms by (simp add: get_religious_information_def Let_def)

text \<open>
  C4. A read of a key at the instant of its write returns the payload written; a later
  read returns it while less than 24 hours (in seconds) have passed since the write, and
  nothing from then on. In \<^verbatim>\<open>get_religious_information\<close>: a call that misses the cache and
  whose generation succeeds stores its result with the time of the write; the same query
  asked again returns the stored result, without the generation service, while the entry is
  younger than 24 hours, and from then on generates, returns and stores a fresh result.
\<close>

theorem cache_round_trip:
  assumes "r \<noteq> []" and "known RELIGIONS (lower r)"
    and "cache_get cache t0 (religion_cache_key (lower r) cat q) = None"
    and "g (religion_prompt (lower r) cat q) = Inr content"
    and "g' (religion_prompt (lower r) cat q) = Inr content'"
  shows "cache_get (cache_put cache t k v) t k = Some v
    \<and> cache_get (cache_put cache t k v) t' k = (if t' - t < 24 * 60 * 60 then Some v else None)
    \<and> get_religious_information g t0 t cache r cat q =
         (religion_result (lower r) cat q content,
          cache_put cache t (religion_cache_key (lower r) cat q)
            (religion_result (lower r) cat q content))
    \<and> get_religious_information g' t' t''
         (cache_put cache t (religion_cache_key (lower r) cat q)
            (religion_result (lower r) cat q content)) r cat q =
         (if t' - t < 24 * 60 * 60
          then (religion_result (lower r) cat q content,
                cache_put cache t (religion_cache_key (lower r) cat q)
                  (religion_result (lower r) cat q content))
          else (religion_result (lower r) cat q content',
                cache_put
                  (cache_put cache t (religion_cache_key (lower r) cat q)
                     (religion_result (lower r) cat q content))
                  t'' (religion_cache_key (lower r) cat q)
                  (religion_result (lower r) cat q content')))"
proof -
  let ?key = "religion_cache_key (lower r) cat q"
  let ?res = "religion_result (lower r) cat q content"
  have a: "cache_get (cache_put cache t k v) t k = Some v"
    by (simp add: cache_get_put cache_time_def)
  have b: "cache_get (cache_put cache t k v) t' k = (if t' - t < 24 * 60 * 60 then Some v else None)"
    by (simp add: cache_get_put cache_time_def)
  have c: "get_religious_information g t0 t cache r cat q = (?res, cache_put cache t ?key ?res)"
    using assms(1-4) by (rule religious_information_miss)
  have look: "cache_get (cache_put cache t ?key ?res) t' ?key
                = (if t' - t < 24 * 60 * 60 then Some ?res else None)"
    by (simp add: cache_get_put cache_time_def)
  have d: "get_religious_information g' t' t'' (cache_put cache t ?key ?res) r cat q =
         (if t' - t < 24 * 60 * 60 then (?res, cache_put cache t ?key ?res)
          else (religion_result (lower r) cat q content',
                cache_put (cache_put cache t ?key ?res) t'' ?key
                  (religion_result (lower r) cat q content')))"
  proof (cases "t' - t < 24 * 60 * 60")
    case True
    with look have "cache_get (cache_put cache t ?key ?res) t' ?key = Some ?res" by simp
    with assms(1,2) have "get_religious_information g' t' t'' (cache_put cache t ?key ?res) r cat q
        = (?res, cache_put cache t ?key ?res)"
      by (rule religious_information_hit)
    with True show ?thesis by simp
  next
    case False
    with look have "cache_get (cache_put cache t ?key ?res) t' ?key = None" by simp
    with assms(1,2) have "get_religious_information g' t' t'' (cache_put cache t ?key ?res) r cat q
        = (religion_result (lower r) cat q content',
           cache_put (cache_put cache t ?key ?res) t'' ?key (religion_result (lower r) cat q content'))"
      using assms(5) by (intro religious_information_miss)
    with False show ?thesis by simp
  qed
  from a b c d show ?thesis by blast
qed

theorem cache_round_trip_witness:
  "cache_get (cache_put empty_cache 1000 ''k'' JNull) 1000 ''k'' = Some JNull
   \<and> cache_get (cache_put empty_cache 1000 ''k'' JNull) 87400 ''k'' = None
   \<and> fst (get_religious_information sample_service 87400 87401
        (snd (get_religious_information sample_service 999 1000 empty_cache
                ''Islam'' ''general'' None))
        ''Islam'' ''general'' None)
      = religion_result (lower ''Islam'') ''general'' None ''Be kind.''"
proof -
  have h1: "''Islam'' \<noteq> []" by simp
  have h3: "cache_get empty_cache 999 (religion_cache_key (lower ''Islam'') ''general'' None) = None"
    by (simp add: cache_get_def empty_cache_def)
  have h4: "sample_service (religion_prompt (lower ''Islam'') ''general'' None) = Inr ''Be kind.''"
    by (simp add: sample_service_def)
  from cache_round_trip [where r = "''Islam''" and cat = "''general''" and q = None
      and cache = empty_cache and ?t0.0 = 999 and g = sample_service and g' = sample_service
      and content = "''Be kind.''" and content' = "''Be kind.''" and t = 1000
      and k = "''k''" and v = JNull and t' = 87400 and t'' = 87401,
      OF h1 known_islam h3 h4 h4]
  show ?thesis by simp
qed

section \<open>Identifiers\<close>

lemma lower_small_letter: "\<forall>c \<in> set lower_letters. lower_char (upper_char c) = c \<and> lower_char c = c"
  by (simp add: lower_char_def upper_char_def upper_letters_def lower_letters_def
      latin_upper_def latin_lower_def)

lemma lower_of_upper:
  assumes "set s \<subseteq> set lower_letters"
  shows "lower (map upper_char s) = s \<and> lower s = s"
proof -
  have "\<forall>c \<in> set s. lower_char (upper_char c) = c \<and> lower_char c = c"
    using assms lower_small_letter by blast
  then show ?thesis
    by (simp add: lower_def map_idI)
qed

lemma religious_information_unknown:
  assumes "r \<noteq> []" and "\<not> known RELIGIONS (lower r)"
  shows "get_religious_information g t t' c r cat q =
           (error_payload (''Unknown religion: '' @ lower r @ ''. Available options are: ''
              @ join '', '' (keys RELIGIONS)), c)"
  using assms by (simp add: get_religious_information_def Let_def)

lemma religious_information_shared:
  assumes "r \<noteq> []" and "known RELIGIONS (lower r)" and "lower r2 = lower r"
    and "cache_get c t (religion_cache_key (lower r) cat q) = None"
    and "g (religion_prompt (lower r) cat q) = Inr content"
    and "t2 - t' < 24 * 60 * 60"
  shows "get_religious_information g2 t2 t2' (snd (get_religious_information g t t' c r cat q))
           r2 cat q = get_religious_information g t t' c r cat q"
proof -
  let ?key = "religion_cache_key (lower r) cat q"
  let ?res = "religion_result (lower r) cat q content"
  have first: "get_religious_information g t t' c r cat q = (?res, cache_put c t' ?key ?res)"
    using assms(1,2,4,5) by (rule religious_information_miss)
  have ne: "r2 \<noteq> []"
    using assms(1,3) lower_empty by metis
  have k2: "known RELIGIONS (lower r2)"
    using assms(2,3) by simp
  have look: "cache_get (cache_put c t' ?key ?res) t2 (religion_cache_key (lower r2) cat q) = Some ?res"
    using assms(3,6) by (simp add: cache_get_put cache_time_def)
  have "get_religious_information g2 t2 t2' (cache_put c t' ?key ?res) r2 cat q
          = (?res, cache_put c t' ?key ?res)"
    using ne k2 look by (rule religious_information_hit)
  then show ?thesis by (simp add: first)
qed

lemma philosophical_perspective_unknown:
  assumes "p \<noteq> []" and "\<not> known PHILOSOPHIES (lower p)"
  shows "get_philosophical_perspective g t t' c p topic =
           (error_payload (''Unknown philosophy: '' @ lower p @ ''. Available options are: ''
              @ join '', '' (keys PHILOSOPHIES)), c)"
    and "pkg_get_philosophical_perspective g t t' c p topic =
           (error_payload (''Unknown philosophy: '' @ lower p @ ''. Available options are: ''
              @ join '', '' (keys PHILOSOPHIES)), c)"
  using assms
  by (simp_all add: get_philosophical_perspective_def pkg_get_philosophical_perspective_def Let_def)

lemma philosophical_perspective_hit:
  assumes "p \<noteq> []" and "known PHILOSOPHIES (lower p)"
    and "cache_get c t (philosophy_cache_key (lower p) topic) = Some v"
  shows "get_philosophical_perspective g t t' c p topic = (v, c)"
    and "pkg_get_philosophical_perspective g t t' c p topic = (v, c)"
  using assms
  by (simp_all add: get_philosophical_perspective_def pkg_get_philosophical_perspective_def Let_def)

lemma philosophical_perspective_miss:
  assumes "p \<noteq> []" and "known PHILOSOPHIES (lower p)"
    and "cache_get c t (philosophy_cache_key (lower p) topic) = None"
  shows "g (philosophy_prompt (lower p) topic) = Inr content \<Longrightarrow>
         get_philosophical_perspective g t t' c p topic =
           (philosophy_result (lower p) topic content,
            cache_put c t' (philosophy_cache_key (lower p) topic)
              (philosophy_result (lower p) topic content))"
    and "g (pkg_philosophy_prompt (lower p) topic) = Inr content \<Longrightarrow>
         pkg_get_philosophical_perspective g t t' c p topic =
           (pkg_philosophy_result (lower p) topic content,
            cache_put c t' (philosophy_cache_key (lower p) topic)
              (pkg_philosophy_result (lower p) topic content))"
  using assms
  by (simp_all add: get_philosophical_perspective_def pkg_get_philosophical_perspective_def Let_def)

lemma lowered_in_payload:
  "walk [Field ''religion''] (religion_result x cat q content) = Some (JStr x)"
  "walk [Field ''philosophy''] (philosophy_result x topic content) = Some (JStr x)"
  "walk [Field ''philosophy''] (pkg_philosophy_result x topic content) = Some (JStr x)"
  by (simp_all add: religion_result_def philosophy_result_def pkg_philosophy_result_def)

lemma same_for_lowered:
  "get_religious_information g t t' c (lower r) cat q = get_religious_information g t t' c r cat q"
  "get_philosophical_perspective g t t' c (lower p) topic
     = get_philosophical_perspective g t t' c p topic"
  "pkg_get_philosophical_perspective g t t' c (lower p) topic
     = pkg_get_philosophical_perspective g t t' c p topic"
  by (simp_all add: get_religious_information_def get_philosophical_perspective_def
      pkg_get_philosophical_perspective_def lower_idem lower_empty Let_def)

text \<open>
  C10. \<^verbatim>\<open>get_religious_information\<close> and \<^verbatim>\<open>get_philosophical_perspective\<close> (of both files)
  return the same payload and leave the same cache for an identifier and for the same
  identifier lowered. Lowering undoes capitals: a word of small letters written in capitals
  is lowered to the word. The identifier is lowered before it is looked up in the table
  (the message for an unknown one carries the lowered form), before the cache key is built
  (a fresh entry under the key of the lowered form is returned for every spelling, and the
  entry that one spelling stores is the one that another spelling reads), and before it is
  put into the payload.
\<close>

theorem identifiers_case_insensitive:
  "get_religious_information g t t' c (lower r) cat q = get_religious_information g t t' c r cat q
   \<and> get_philosophical_perspective g t t' c (lower p) topic
       = get_philosophical_perspective g t t' c p topic
   \<and> pkg_get_philosophical_perspective g t t' c (lower p) topic
       = pkg_get_philosophical_perspective g t t' c p topic
   \<and> (set s \<subseteq> set lower_letters \<longrightarrow> lower (map upper_char s) = s \<and> lower s = s)
   \<and> (r \<noteq> [] \<and> \<not> known RELIGIONS (lower r) \<longrightarrow>
        get_religious_information g t t' c r cat q =
          (error_payload (''Unknown religion: '' @ lower r @ ''. Available options are: ''
             @ join '', '' (keys RELIGIONS)), c))
   \<and> (r \<noteq> [] \<and> known RELIGIONS (lower r)
        \<and> cache_get c t (religion_cache_key (lower r) cat q) = Some v \<longrightarrow>
        get_religious_information g t t' c r cat q = (v, c))
   \<and> (r \<noteq> [] \<and> known RELIGIONS (lower r)
        \<and> cache_get c t (religion_cache_key (lower r) cat q) = None
        \<and> g (religion_prompt (lower r) cat q) = Inr content \<longrightarrow>
        get_religious_information g t t' c r cat q =
          (religion_result (lower r) cat q content,
           cache_put c t' (religion_cache_key (lower r) cat q)
             (religion_result (lower r) cat q content))
        \<and> walk [Field ''religion''] (religion_result (lower r) cat q content)
            = Some (JStr (lower r))
        \<and> (lower r2 = lower r \<and> t2 - t' < 24 * 60 * 60 \<longrightarrow>
             get_religious_information g2 t2 t2'
               (snd (get_religious_information g t t' c r cat q)) r2 cat q
             = get_religious_information g t t' c r cat q))
   \<and> (p \<noteq> [] \<and> \<not> known PHILOSOPHIES (lower p) \<longrightarrow>
        get_philosophical_perspective g t t' c p topic =
          (error_payload (''Unknown philosophy: '' @ lower p @ ''. Available options are: ''
             @ join '', '' (keys PHILOSOPHIES)), c)
        \<and> pkg_get_philosophical_perspective g t t' c p topic =
          (error_payload (''Unknown philosophy: '' @ lower p @ ''. Available options are: ''
             @ join '', '' (keys PHILOSOPHIES)), c))
   \<and> (p \<noteq> [] \<and> known PHILOSOPHIES (lower p)
        \<and> cache_get c t (philosophy_cache_key (lower p) topic) = Some v \<longrightarrow>
        get_philosophical_perspective g t t' c p topic = (v, c)
        \<and> pkg_get_philosophical_perspective g t t' c p topic = (v, c))
   \<and> (p \<noteq> [] \<and> known PHILOSOPHIES (lower p)
        \<and> cache_get c t (philosophy_cache_key (lower p) topic) = None
        \<and> g (philosophy_prompt (lower p) topic) = Inr content \<longrightarrow>
        get_philosophical_perspective g t t' c p topic =
          (philosophy_result (lower p) topic content,
           cache_put c t' (philosophy_cache_key (lower p) topic)
             (philosophy_result (lower p) topic content))
        \<and> walk [Field ''philosophy''] (philosophy_result (lower p) topic content)
            = Some (JStr (lower p)))
   \<and> (p \<noteq> [] \<and> known PHILOSOPHIES (lower p)
        \<and> cache_get c t (philosophy_cache_key (lower p) topic) = None
        \<and> g (pkg_philosophy_prompt (lower p) topic) = Inr content \<longrightarrow>
        pkg_get_philosophical_perspective g t t' c p topic =
          (pkg_philosophy_result (lower p) topic content,
           cache_put c t' (philosophy_cache_key (lower p) topic)
             (pkg_philosophy_result (lower p) topic content))
        \<and> walk [Field ''philosophy''] (pkg_philosophy_result (lower p) topic content)
            = Some (JStr (lower p)))"
proof -
  have c0: "get_religious_information g t t' c (lower r) cat q = get_religious_information g t t' c r cat q"
    by (rule same_for_lowered)
  have c1: "get_philosophical_perspective g t t' c (lower p) topic
       = get_philosophical_perspective g t t' c p topic"
    by (rule same_for_lowered)
  have c2: "pkg_get_philosophical_perspective g t t' c (lower p) topic
       = pkg_get_philosophical_perspective g t t' c p topic"
    by (rule same_for_lowered)
  have c3: "(set s \<subseteq> set lower_letters \<longrightarrow> lower (map upper_char s) = s \<and> lower s = s)"
    using lower_of_upper by blast
  have c4: "(r \<noteq> [] \<and> \<not> known RELIGIONS (lower r) \<longrightarrow>
        get_religious_information g t t' c r cat q =
          (error_payload (''Unknown religion: '' @ lower r @ ''. Available options are: ''
             @ join '', '' (keys RELIGIONS)), c))"
    using religious_information_unknown by blast
  have c5: "(r \<noteq> [] \<and> known RELIGIONS (lower r)
        \<and> cache_get c t (religion_cache_key (lower r) cat q) = Some v \<longrightarrow>
        get_religious_information g t t' c r cat q = (v, c))"
    using religious_information_hit by blast
  have c6: "(r \<noteq> [] \<and> known RELIGIONS (lower r)
        \<and> cache_get c t (religion_cache_key (lower r) cat q) = None
        \<and> g (religion_prompt (lower r) cat q) = Inr content \<longrightarrow>
        get_religious_information g t t' c r cat q =
          (religion_result (lower r) cat q content,
           cache_put c t' (religion_cache_key (lower r) cat q)
             (religion_result (lower r) cat q content))
        \<and> walk [Field ''religion''] (religion_result (lower r) cat q content)
            = Some (JStr (lower r))
        \<and> (lower r2 = lower r \<and> t2 - t' < 24 * 60 * 60 \<longrightarrow>
             get_religious_information g2 t2 t2'
               (snd (get_religious_information g t t' c r cat q)) r2 cat q
             = get_religious_information g t t' c r cat q))"
    using religious_information_miss [of r c t cat q g content t'] religious_information_shared [of r r2 c t cat q g content t2 t' g2 t2'] lowered_in_payload(1) by blast
  have c7: "(p \<noteq> [] \<and> \<not> known PHILOSOPHIES (lower p) \<longrightarrow>
        get_philosophical_perspective g t t' c p topic =
          (error_payload (''Unknown philosophy: '' @ lower p @ ''. Available options are: ''
             @ join '', '' (keys PHILOSOPHIES)), c)
        \<and> pkg_get_philosophical_perspective g t t' c p topic =
          (error_payload (''Unknown philosophy: '' @ lower p @ ''. Available options are: ''
             @ join '', '' (keys PHILOSOPHIES)), c))"
    using philosophical_perspective_unknown [of p g t t' c topic] by blast
  have c8: "(p \<noteq> [] \<and> known PHILOSOPHIES (lower p)
        \<and> cache_get c t (philosophy_cache_key (lower p) topic) = Some v \<longrightarrow>
        get_philosophical_perspective g t t' c p topic = (v, c)
        \<and> pkg_get_philosophical_perspective g t t' c p topic = (v, c))"
    using philosophical_perspective_hit [of p c t topic v g t'] by blast
  have c9: "(p \<noteq> [] \<and> known PHILOSOPHIES (lower p)
        \<and> cache_get c t (philosophy_cache_key (lower p) topic) = None
        \<and> g (philosophy_prompt (lower p) topic) = Inr content \<longrightarrow>
        get_philosophical_perspective g t t' c p topic =
          (philosophy_result (lower p) topic content,
           cache_put c t' (philosophy_cache_key (lower p) topic)
             (philosophy_result (lower p) topic content))
        \<and> walk [Field ''philosophy''] (philosophy_result (lower p) topic content)
            = Some (JStr (lower p)))"
    using philosophical_perspective_miss(1) [of p c t topic g content t'] lowered_in_payload(2) by blast
  have c10: "(p \<noteq> [] \<and> known PHILOSOPHIES (lower p)
        \<and> cache_get c t (philosophy_cache_key (lower p) topic) = None
        \<and> g (pkg_philosophy_prompt (lower p) topic) = Inr content \<longrightarrow>
        pkg_get_philosophical_perspective g t t' c p topic =
          (pkg_philosophy_result (lower p) topic content,
           cache_put c t' (philosophy_cache_key (lower p) topic)
             (pkg_philosophy_result (lower p) topic content))
        \<and> walk [Field ''philosophy''] (pkg_philosophy_result (lower p) topic content)
            = Some (JStr (lower p)))"
    using philosophical_perspective_miss(2) [of p c t topic g content t'] lowered_in_payload(3) by blast
  show ?thesis
    using c0 c1 c2 c3 c4 c5 c6 c7 c8 c9 c10
    by (intro conjI) assumption+
qed

lemma lower_samples:
  "lower ''Islam'' = ''islam''" "lower ''ISLAM'' = ''islam''" "lower ''Stoicism'' = ''stoicism''"
  "lower ''islam'' = ''islam''" "lower ''atlantis'' = ''atlantis''"
  by (simp_all add: lower_eval)

lemma known_samples:
  "known RELIGIONS ''islam''" "known PHILOSOPHIES ''stoicism''" "\<not> known RELIGIONS ''atlantis''"
  "\<not> known CATEGORIES ''astrology''"
  by (simp_all add: known_def RELIGIONS_def PHILOSOPHIES_def CATEGORIES_def)

theorem identifiers_case_insensitive_witness:
  "fst (get_religious_information sample_service 0 1 empty_cache ''Islam'' ''general'' None)
     = religion_result ''islam'' ''general'' None ''Be kind.''
   \<and> get_religious_information failing_service 2 3
        (snd (get_religious_information sample_service 0 1 empty_cache ''Islam'' ''general'' None))
        ''ISLAM'' ''general'' None
       = get_religious_information sample_service 0 1 empty_cache ''Islam'' ''general'' None
   \<and> fst (get_philosophical_perspective sample_service 0 1 empty_cache ''Stoicism'' None)
       = philosophy_result ''stoicism'' None ''Be kind.''
   \<and> fst (pkg_get_philosophical_perspective sample_service 0 1 empty_cache ''Stoicism'' None)
       = pkg_philosophy_result ''stoicism'' None ''Be kind.''
   \<and> lower (map upper_char ''islam'') = ''islam''"
proof -
  have hr: "''Islam'' \<noteq> [] \<and> known RELIGIONS (lower ''Islam'')
      \<and> cache_get empty_cache 0 (religion_cache_key (lower ''Islam'') ''general'' None) = None
      \<and> sample_service (religion_prompt (lower ''Islam'') ''general'' None) = Inr ''Be kind.''"
    by (simp add: lower_samples known_samples cache_get_empty sample_service_def)
  have hs: "lower ''ISLAM'' = lower ''Islam'' \<and> (2::real) - 1 < 24 * 60 * 60"
    by (simp add: lower_samples)
  have hp: "''Stoicism'' \<noteq> [] \<and> known PHILOSOPHIES (lower ''Stoicism'')
      \<and> cache_get empty_cache 0 (philosophy_cache_key (lower ''Stoicism'') None) = None
      \<and> sample_service (philosophy_prompt (lower ''Stoicism'') None) = Inr ''Be kind.''
      \<and> sample_service (pkg_philosophy_prompt (lower ''Stoicism'') None) = Inr ''Be kind.''"
    by (simp add: lower_samples known_samples cache_get_empty sample_service_def)
  have hl: "set ''islam'' \<subseteq> set lower_letters"
    by (simp add: lower_letters_def)
  note inst = identifiers_case_insensitive [where r = "''Islam''" and cat = "''general''"
      and q = None and c = empty_cache and t = 0 and t' = 1 and g = sample_service
      and content = "''Be kind.''" and ?r2.0 = "''ISLAM''" and ?t2.0 = 2 and t2' = 3
      and ?g2.0 = failing_service and p = "''Stoicism''" and topic = None and s = "''islam''"]
  from inst hr have first:
    "get_religious_information sample_service 0 1 empty_cache ''Islam'' ''general'' None =
       (religion_result (lower ''Islam'') ''general'' None ''Be kind.'',
        cache_put empty_cache 1 (religion_cache_key (lower ''Islam'') ''general'' None)
          (religion_result (lower ''Islam'') ''general'' None ''Be kind.''))"
    by blast
  from inst hr hs have shared:
    "get_religious_information failing_service 2 3
        (snd (get_religious_information sample_service 0 1 empty_cache ''Islam'' ''general'' None))
        ''ISLAM'' ''general'' None
       = get_religious_information sample_service 0 1 empty_cache ''Islam'' ''general'' None"
    by blast
  from inst hp have ph:
    "get_philosophical_perspective sample_service 0 1 empty_cache ''Stoicism'' None =
       (philosophy_result (lower ''Stoicism'') None ''Be kind.'',
        cache_put empty_cache 1 (philosophy_cache_key (lower ''Stoicism'') None)
          (philosophy_result (lower ''Stoicism'') None ''Be kind.''))"
    by blast
  from inst hp have pk:
    "pkg_get_philosophical_perspective sample_service 0 1 empty_cache ''Stoicism'' None =
       (pkg_philosophy_result (lower ''Stoicism'') None ''Be kind.'',
        cache_put empty_cache 1 (philosophy_cache_key (lower ''Stoicism'') None)
          (pkg_philosophy_result (lower ''Stoicism'') None ''Be kind.''))"
    by blast
  from inst hl have lu: "lower (map upper_char ''islam'') = ''islam''"
    by blast
  have c1: "fst (get_religious_information sample_service 0 1 empty_cache ''Islam'' ''general'' None)
     = religion_result ''islam'' ''general'' None ''Be kind.''"
    by (simp add: first lower_samples)
  have c3: "fst (get_philosophical_perspective sample_service 0 1 empty_cache ''Stoicism'' None)
       = philosophy_result ''stoicism'' None ''Be kind.''"
    by (simp add: ph lower_samples)
  have c4: "fst (pkg_get_philosophical_perspective sample_service 0 1 empty_cache ''Stoicism'' None)
       = pkg_philosophy_result ''stoicism'' None ''Be kind.''"
    by (simp add: pk lower_samples)
  show ?thesis
    using c1 shared c3 c4 lu by (intro conjI) assumption+
qed

section \<open>Cache keys of the operations on several religions\<close>

lemma comparison_keys_differ:
  assumes "known RELIGIONS a" "known RELIGIONS b" "a \<noteq> b"
  shows "comparison_cache_key a b aspect \<noteq> comparison_cache_key b a aspect"
proof
  assume eq: "comparison_cache_key a b aspect = comparison_cache_key b a aspect"
  have "\<exists>x y. a @ CHR ''-'' # x = b @ CHR ''-'' # y"
  proof (cases "aspect = []")
    case True
    with eq have "a @ CHR ''-'' # b = b @ CHR ''-'' # a"
      by (simp add: comparison_cache_key_def get_cache_key_def)
    then show ?thesis by blast
  next
    case False
    with eq have "a @ CHR ''-'' # (b @ ''-'' @ aspect) = b @ CHR ''-'' # (a @ ''-'' @ aspect)"
      by (simp add: comparison_cache_key_def get_cache_key_def)
    then show ?thesis by blast
  qed
  then show False
    using assms hyphen_split known_religion_no_hyphen by blast
qed

lemma sort_mset_cong: "mset xs = mset ys \<Longrightarrow> sort xs = sort (ys :: string list)"
  by (metis mset_sort properties_for_sort sorted_sort)

lemma valid_religions_mset:
  assumes "mset ps = mset qs"
  shows "mset (valid_religions_of (Some ps)) = mset (valid_religions_of (Some qs))"
proof -
  have len: "length ps = length qs"
    using assms by (rule mset_eq_length)
  then have emp: "(ps = []) = (qs = [])" by auto
  have "mset (filter (known RELIGIONS) (map lower ps))
          = mset (filter (known RELIGIONS) (map lower qs))"
    using assms by (metis mset_filter mset_map)
  then show ?thesis
    by (simp add: valid_religions_of_def len emp)
qed

lemma dialogue_key_perm:
  assumes "mset ps = mset qs"
  shows "interfaith_cache_key topic (valid_religions_of (Some ps))
        = interfaith_cache_key topic (valid_religions_of (Some qs))"
proof -
  have "sort (valid_religions_of (Some ps)) = sort (valid_religions_of (Some qs))"
    using assms by (intro sort_mset_cong valid_religions_mset)
  then show ?thesis by (simp add: interfaith_cache_key_def)
qed

text \<open>
  C1, as stated, fails for comparisons: the key of \<^verbatim>\<open>compare_religions\<close> joins the two
  identifiers in the order of the arguments.
\<close>

theorem comparison_key_counterexample:
  "comparison_cache_key ''islam'' ''judaism'' ''general''
     \<noteq> comparison_cache_key ''judaism'' ''islam'' ''general''"
  by (simp add: comparison_cache_key_def get_cache_key_def)

text \<open>
  C1, amended. The cache key of an interfaith dialogue is the same for every ordering of
  the same participants, since the valid identifiers are sorted before they are joined.
  The cache key of a comparison is built from the two identifiers in the order given: for
  two different known religions the two orders give different keys.
\<close>

theorem dialogue_key_order_independent:
  "(mset ps = mset qs \<longrightarrow>
      interfaith_cache_key topic (valid_religions_of (Some ps))
        = interfaith_cache_key topic (valid_religions_of (Some qs)))
   \<and> (known RELIGIONS a \<and> known RELIGIONS b \<and> a \<noteq> b \<longrightarrow>
        comparison_cache_key a b aspect \<noteq> comparison_cache_key b a aspect)"
  using comparison_keys_differ dialogue_key_perm by blast

theorem dialogue_key_order_independent_witness:
  "interfaith_cache_key ''ethics'' (valid_religions_of (Some [''Judaism'', ''islam'']))
     = interfaith_cache_key ''ethics'' (valid_religions_of (Some [''islam'', ''Judaism'']))
   \<and> comparison_cache_key ''islam'' ''judaism'' ''ethics''
       \<noteq> comparison_cache_key ''judaism'' ''islam'' ''ethics''"
proof -
  have m: "mset [''Judaism'', ''islam''] = mset [''islam'', ''Judaism'']" by simp
  have k: "known RELIGIONS ''islam'' \<and> known RELIGIONS ''judaism'' \<and> ''islam'' \<noteq> ''judaism''"
    by (simp add: known_def RELIGIONS_def)
  show ?thesis
    using m k dialogue_key_order_independent [of "[''Judaism'', ''islam'']"
        "[''islam'', ''Judaism'']" "''ethics''" "''islam''" "''judaism''" "''ethics''"]
    by blast
qed

section \<open>Validation of the participants of a dialogue\<close>

lemma valid_default: "filter (known RELIGIONS) (map lower default_religions) = default_religions"
  by (simp add: default_religions_def known_def RELIGIONS_def lower_eval)

lemma valid_religions_short: "length rs < 2 \<Longrightarrow> valid_religions_of (Some rs) = default_religions"
  by (simp add: valid_religions_of_def valid_default)

lemma valid_religions_none: "valid_religions_of None = default_religions"
  by (simp add: valid_religions_of_def valid_default)

lemma valid_religions_long:
  "2 \<le> length rs \<Longrightarrow> valid_religions_of (Some rs) = filter (known RELIGIONS) (map lower rs)"
  by (auto simp: valid_religions_of_def)

lemma is_error_payload_error [simp]: "is_error_payload (error_payload m)"
  by (simp add: error_payload_def)

text \<open>
  C5, as stated, fails: a list of one participant has fewer than two entries, so it is
  replaced by the five default religions before the unknown ones are filtered out, and the
  dialogue is generated.
\<close>

theorem interfaith_atlantis_counterexample:
  "\<not> is_error_payload (agent_get_interfaith_dialogue sample_service ''ethics'' (Some [''atlantis'']))
   \<and> \<not> is_error_payload
        (fst (pkg_get_interfaith_dialogue sample_service 0 0 empty_cache ''ethics'' (Some [''atlantis''])))"
proof -
  have v: "valid_religions_of (Some [''atlantis'']) = default_religions"
    by (simp add: valid_religions_short)
  have l: "\<not> length default_religions < 2"
    by (simp add: default_religions_def)
  show ?thesis
    by (simp add: agent_get_interfaith_dialogue_def pkg_get_interfaith_dialogue_def v l
        sample_service_def cache_get_def empty_cache_def Let_def)
qed

text \<open>
  C5, amended. A participant list with fewer than two entries, such as ["atlantis"], is
  replaced by the five default religions, and the operation behaves as if no list had been
  given: it returns a dialogue payload when generation succeeds. The error payload is
  returned when at least two participants are given and fewer than two of them are known.
\<close>

theorem interfaith_dialogue_validation:
  "(length rs < 2 \<longrightarrow>
      valid_religions_of (Some rs) = default_religions
      \<and> agent_get_interfaith_dialogue g topic (Some rs) = agent_get_interfaith_dialogue g topic None
      \<and> pkg_get_interfaith_dialogue g t t' c topic (Some rs)
          = pkg_get_interfaith_dialogue g t t' c topic None)
   \<and> (length rs < 2 \<and> g (agent_dialogue_prompt topic default_religions) = Inr content \<longrightarrow>
        agent_get_interfaith_dialogue g topic (Some rs) =
          JObj [(''status'', JStr ''success''), (''topic'', JStr topic),
                (''religions'', JList (map JStr default_religions)),
                (''dialogue'', JStr content)])
   \<and> (2 \<le> length rs \<and> length (filter (known RELIGIONS) (map lower rs)) < 2 \<longrightarrow>
        is_error_payload (agent_get_interfaith_dialogue g topic (Some rs))
        \<and> is_error_payload (fst (pkg_get_interfaith_dialogue g t t' c topic (Some rs)))
        \<and> snd (pkg_get_interfaith_dialogue g t t' c topic (Some rs)) = c)"
proof -
  have l: "\<not> length default_religions < 2"
    by (simp add: default_religions_def)
  have a: "length rs < 2 \<Longrightarrow> valid_religions_of (Some rs) = valid_religions_of None"
    by (simp add: valid_religions_short valid_religions_none)
  have p1: "length rs < 2 \<longrightarrow>
      valid_religions_of (Some rs) = default_religions
      \<and> agent_get_interfaith_dialogue g topic (Some rs) = agent_get_interfaith_dialogue g topic None
      \<and> pkg_get_interfaith_dialogue g t t' c topic (Some rs)
          = pkg_get_interfaith_dialogue g t t' c topic None"
    using a by (simp add: valid_religions_short agent_get_interfaith_dialogue_def
        pkg_get_interfaith_dialogue_def)
  have p2: "length rs < 2 \<and> g (agent_dialogue_prompt topic default_religions) = Inr content \<longrightarrow>
        agent_get_interfaith_dialogue g topic (Some rs) =
          JObj [(''status'', JStr ''success''), (''topic'', JStr topic),
                (''religions'', JList (map JStr default_religions)),
                (''dialogue'', JStr content)]"
    using l by (simp add: agent_get_interfaith_dialogue_def valid_religions_short Let_def)
  have p3: "2 \<le> length rs \<and> length (filter (known RELIGIONS) (map lower rs)) < 2 \<longrightarrow>
        is_error_payload (agent_get_interfaith_dialogue g topic (Some rs))
        \<and> is_error_payload (fst (pkg_get_interfaith_dialogue g t t' c topic (Some rs)))
        \<and> snd (pkg_get_interfaith_dialogue g t t' c topic (Some rs)) = c"
    by (simp add: agent_get_interfaith_dialogue_def pkg_get_interfaith_dialogue_def
        valid_religions_long Let_def)
  from p1 p2 p3 show ?thesis by blast
qed

theorem interfaith_dialogue_validation_witness:
  "valid_religions_of (Some [''atlantis'']) = default_religions
   \<and> agent_get_interfaith_dialogue sample_service ''ethics'' (Some [''atlantis''])
       = agent_get_interfaith_dialogue sample_service ''ethics'' None
   \<and> is_error_payload (agent_get_interfaith_dialogue sample_service ''ethics''
        (Some [''atlantis'', ''lemuria'']))
   \<and> is_error_payload (fst (pkg_get_interfaith_dialogue sample_service 0 0 empty_cache ''ethics''
        (Some [''atlantis'', ''lemuria''])))"
proof -
  have h1: "length [''atlantis''] < 2" by simp
  have h2: "2 \<le> length [''atlantis'', ''lemuria'']
      \<and> length (filter (known RELIGIONS) (map lower [''atlantis'', ''lemuria''])) < 2"
    by (simp add: known_def RELIGIONS_def lower_eval)
  show ?thesis
    using h1 h2
      interfaith_dialogue_validation [where rs = "[''atlantis'']" and g = sample_service
        and topic = "''ethics''"]
      interfaith_dialogue_validation [where rs = "[''atlantis'', ''lemuria'']"
        and g = sample_service and topic = "''ethics''" and t = 0 and t' = 0 and c = empty_cache]
    by blast
qed

section \<open>Validation of durations and categories\<close>

lemma meditation_result_ok: "\<not> is_error_payload (meditation_result tradition d focus content)"
  by (simp add: meditation_result_def)

text \<open>
  C6. The package validates the duration: 0 and 61 give the error payload, 30 a guide.
  The method of src/spiritual\_api.py, which the tool of agent.py calls, has no such
  test: for 0 and for 61 minutes it generates and returns a guide.
\<close>

theorem meditation_duration_unchecked:
  "fst (agent_get_meditation_guide sample_service 0 0 empty_cache None 0 ''mindfulness'')
     = meditation_result None 0 ''mindfulness'' ''Be kind.''
   \<and> fst (agent_get_meditation_guide sample_service 0 0 empty_cache None 61 ''mindfulness'')
       = meditation_result None 61 ''mindfulness'' ''Be kind.''
   \<and> \<not> is_error_payload (meditation_result None 0 ''mindfulness'' ''Be kind.'')
   \<and> \<not> is_error_payload (meditation_result None 61 ''mindfulness'' ''Be kind.'')
   \<and> is_error_payload
        (fst (pkg_get_meditation_guide sample_service 0 0 empty_cache None 0 ''mindfulness''))
   \<and> is_error_payload
        (fst (pkg_get_meditation_guide sample_service 0 0 empty_cache None 61 ''mindfulness''))
   \<and> fst (pkg_get_meditation_guide sample_service 0 0 empty_cache None 30 ''mindfulness'')
       = meditation_result None 30 ''mindfulness'' ''Be kind.''"
  by (simp add: agent_get_meditation_guide_def get_meditation_guide_def
      pkg_get_meditation_guide_def cache_get_empty sample_service_def meditation_result_ok
      Let_def)








section \<open>Deleting a session\<close>

lemma confirm_not_select: "\<not> startswith ''confirm_delete'' ''select_session:''"
  by simp

lemma button_callback_confirm:
  "button_callback http sessions user_id username ''confirm_delete'' =
     (case sessions user_id of
        Some binding \<Rightarrow>
          (case http (username_or_default username user_id) (session_id binding) of
             Response status_code text \<Rightarrow>
               if status_code = 200
               then (sessions(user_id := None),
                     [DELETE_session (username_or_default username user_id) (session_id binding)],
                     [SessionDeleted])
               else (sessions,
                     [DELETE_session (username_or_default username user_id) (session_id binding)],
                     [DeleteFailed text])
           | Raised \<Rightarrow>
               (sessions,
                [DELETE_session (username_or_default username user_id) (session_id binding)],
                [DeleteWentWrong]))
      | None \<Rightarrow> (sessions, [], [NoSessionToDelete]))"
  by (simp add: button_callback_def Let_def)

lemma button_callback_other:
  "callback_data \<noteq> ''confirm_delete'' \<Longrightarrow>
     fst (snd (button_callback http sessions user_id username callback_data)) = []"
  by (simp add: button_callback_def Let_def split: list.split)

text \<open>
  C9. The delete-session command makes no call to the Agent Run Service and leaves the
  store as it is: it only asks for confirmation. A button callback makes a call only when
  its data are \<^verbatim>\<open>confirm_delete\<close> and the user has a session, and the call is then the one
  DELETE of that session. When that DELETE raises or answers with a status other than
  200, the store is left as it is; when it answers 200, the binding of the user is removed.
\<close>

theorem delete_requires_confirmation:
  "fst (delete_session sessions user_id) = sessions
   \<and> fst (snd (delete_session sessions user_id)) = []
   \<and> (fst (snd (button_callback http sessions user_id username callback_data)) \<noteq> [] \<longrightarrow>
        callback_data = ''confirm_delete'' \<and> sessions user_id \<noteq> None)
   \<and> (sessions user_id = Some binding \<longrightarrow>
        fst (snd (button_callback http sessions user_id username ''confirm_delete''))
          = [DELETE_session (username_or_default username user_id) (session_id binding)])
   \<and> (sessions user_id = Some binding
        \<and> (\<forall>text. http (username_or_default username user_id) (session_id binding)
                    \<noteq> Response 200 text) \<longrightarrow>
        fst (button_callback http sessions user_id username ''confirm_delete'') = sessions)
   \<and> (sessions user_id = Some binding
        \<and> http (username_or_default username user_id) (session_id binding) = Response 200 text \<longrightarrow>
        fst (button_callback http sessions user_id username ''confirm_delete'')
          = sessions(user_id := None))"
proof -
  have a: "fst (delete_session sessions user_id) = sessions
      \<and> fst (snd (delete_session sessions user_id)) = []"
    by (simp add: delete_session_def split: option.split)
  have b: "fst (snd (button_callback http sessions user_id username callback_data)) \<noteq> [] \<longrightarrow>
        callback_data = ''confirm_delete'' \<and> sessions user_id \<noteq> None"
  proof (cases "callback_data = ''confirm_delete''")
    case True
    then show ?thesis
      by (auto simp: button_callback_confirm split: option.splits)
  next
    case False
    then show ?thesis by (simp add: button_callback_other)
  qed
  have c: "sessions user_id = Some binding \<longrightarrow>
        fst (snd (button_callback http sessions user_id username ''confirm_delete''))
          = [DELETE_session (username_or_default username user_id) (session_id binding)]"
    by (simp add: button_callback_confirm split: http_result.split)
  have d: "sessions user_id = Some binding
        \<and> (\<forall>text. http (username_or_default username user_id) (session_id binding)
                    \<noteq> Response 200 text) \<longrightarrow>
        fst (button_callback http sessions user_id username ''confirm_delete'') = sessions"
    by (auto simp: button_callback_confirm split: http_result.split)
  have e: "sessions user_id = Some binding
        \<and> http (username_or_default username user_id) (session_id binding) = Response 200 text \<longrightarrow>
        fst (button_callback http sessions user_id username ''confirm_delete'')
          = sessions(user_id := None)"
    by (simp add: button_callback_confirm)
  from a b c d e show ?thesis by blast
qed

theorem delete_requires_confirmation_witness:
  "fst (snd (delete_session sample_sessions ''42'')) = []
   \<and> fst (snd (button_callback failing_delete sample_sessions ''42'' (Some ''ann'')
        ''confirm_delete'')) = [DELETE_session ''ann'' (JStr ''s1'')]
   \<and> fst (button_callback failing_delete sample_sessions ''42'' (Some ''ann'')
        ''confirm_delete'') = sample_sessions"
proof -
  have h1: "sample_sessions ''42'' = Some \<lparr>session_id = JStr ''s1'', telegram_username = ''ann''\<rparr>"
    by (simp add: sample_sessions_def)
  have h2: "\<forall>text. failing_delete (username_or_default (Some ''ann'') ''42'')
              (session_id \<lparr>session_id = JStr ''s1'', telegram_username = ''ann''\<rparr>)
            \<noteq> Response 200 text"
    by (simp add: failing_delete_def)
  have u: "username_or_default (Some ''ann'') ''42'' = ''ann''"
    by (simp add: username_or_default_def)
  show ?thesis
    using h1 h2 u
      delete_requires_confirmation [where sessions = sample_sessions and user_id = "''42''"
        and username = "Some ''ann''" and http = failing_delete
        and binding = "\<lparr>session_id = JStr ''s1'', telegram_username = ''ann''\<rparr>"]
    by simp
qed

end
